theory Spec2Isabelle
  imports Main "HOL-Library.Sublist"
begin

section \<open>The health endpoint of rk-website-core\<close>

text \<open>
  The one piece of runtime logic of the repository is the route handler
  \<^verbatim>\<open>src/app/api/health/route.ts\<close>:
  \<^verbatim>\<open>
  export async function GET() {
    try {
      // Test database connection
      await db.$queryRaw`SELECT 1`

      return NextResponse.json({
        status: 'healthy',
        timestamp: new Date().toISOString(),
        services: { database: 'connected', api: 'operational' },
      })
    } catch (error) {
      console.error('Health check failed:', error)

      return NextResponse.json(
        {
          status: 'unhealthy',
          timestamp: new Date().toISOString(),
          error: 'Database connection failed',
          services: { database: 'disconnected', api: 'operational' },
        },
        { status: 503 }
      )
    }
  }
  \<close>
  The handler is embedded as a function of what it reads (the answer of the
  database client and the clock) and of the state it writes (the console and
  the statements sent to the database).
\<close>

subsection \<open>Values of the runtime\<close>

text \<open>A thrown value: an \<^verbatim>\<open>Error\<close> object with its name and message.\<close>

datatype js_error = JsError (error_name: string) (error_message: string)

text \<open>
  What \<^verbatim>\<open>await p\<close> meets: the promise is fulfilled with a value, rejected
  with a thrown value, or never settles (then the \<^verbatim>\<open>await\<close> does not return).
\<close>

datatype 'a promise = Fulfilled 'a | Rejected js_error | Pending

text \<open>
  JSON values as the object literals of the handler build them: strings and
  objects, an object being the list of its members in source order.
\<close>

datatype json = JString string | JObject "(string \<times> json) list"

fun field :: "string \<Rightarrow> json \<Rightarrow> json option" where
  "field k (JObject kvs) = map_of kvs k"
| "field k (JString s) = None"

definition field2 :: "string \<Rightarrow> string \<Rightarrow> json \<Rightarrow> json option" where
  "field2 k1 k2 j = (case field k1 j of None \<Rightarrow> None | Some o1 \<Rightarrow> field k2 o1)"

fun members :: "json \<Rightarrow> (string \<times> json) list" where
  "members (JObject kvs) = kvs"
| "members (JString s) = []"

text \<open>The response: the transport status and the JSON body.\<close>

record response =
  status_code :: nat
  body :: json

text \<open>
  \<^verbatim>\<open>NextResponse.json(body, init)\<close>: the status is the one of \<^verbatim>\<open>init\<close>,
  and 200 when the call has no \<^verbatim>\<open>init\<close>.
\<close>

definition NextResponse_json :: "json \<Rightarrow> nat option \<Rightarrow> response" where
  "NextResponse_json b init =
     \<lparr>status_code = (case init of None \<Rightarrow> 200 | Some s \<Rightarrow> s), body = b\<rparr>"

text \<open>The console: each call of \<^verbatim>\<open>console.error\<close> appends its arguments.\<close>

datatype log_arg = LogString string | LogError js_error

datatype log_entry = ConsoleError "log_arg list"

record world =
  console :: "log_entry list"
  sent :: "string list"

definition console_error :: "log_arg list \<Rightarrow> world \<Rightarrow> world" where
  "console_error args w = w\<lparr>console := console w @ [ConsoleError args]\<rparr>"

text \<open>
  What one invocation reads: the answer of the database client to a raw
  query, and the time value (milliseconds since the epoch) that
  \<^verbatim>\<open>new Date()\<close> reads when the response is built.
\<close>

record 'a env =
  queryRaw :: "string \<Rightarrow> 'a promise"
  clock :: int

definition db_queryRaw :: "'a env \<Rightarrow> string \<Rightarrow> world \<Rightarrow> 'a promise \<times> world" where
  "db_queryRaw e q w = (queryRaw e q, w\<lparr>sent := sent w @ [q]\<rparr>)"

subsection \<open>\<^verbatim>\<open>Date.prototype.toISOString\<close>\<close>

text \<open>
  Modelled from the spec: \<^verbatim>\<open>toISOString\<close> is the JavaScript runtime's, not a
  function under src/; the spec asks for an \<^verbatim>\<open><ISO-8601 datetime>\<close>, and the
  model follows the runtime's standard (ECMA-262, Date Time String Format):
  \<^verbatim>\<open>YYYY-MM-DDTHH:mm:ss.sssZ\<close> in UTC, the year written with four digits
  from 0 to 9999 and with a sign and six digits otherwise.
\<close>

definition msPerDay :: int where
  "msPerDay = 86400000"

definition Day :: "int \<Rightarrow> int" where
  "Day t = t div msPerDay"

definition HourFromTime :: "int \<Rightarrow> int" where
  "HourFromTime t = (t div 3600000) mod 24"

definition MinFromTime :: "int \<Rightarrow> int" where
  "MinFromTime t = (t div 60000) mod 60"

definition SecFromTime :: "int \<Rightarrow> int" where
  "SecFromTime t = (t div 1000) mod 60"

definition msFromTime :: "int \<Rightarrow> int" where
  "msFromTime t = t mod 1000"

definition InLeapYear :: "int \<Rightarrow> bool" where
  "InLeapYear y = (y mod 4 = 0 \<and> (y mod 100 \<noteq> 0 \<or> y mod 400 = 0))"

definition DaysInYear :: "int \<Rightarrow> int" where
  "DaysInYear y = (if InLeapYear y then 366 else 365)"

definition DayFromYear :: "int \<Rightarrow> int" where
  "DayFromYear y =
     365 * (y - 1970) + (y - 1969) div 4 - (y - 1901) div 100 + (y - 1601) div 400"

text \<open>
  The year of a day number: the day is counted from 1 January of year 1
  (day \<open>-719162\<close>) and split into cycles of 400, 100, 4 and 1 years.
\<close>

definition YearFromDay :: "int \<Rightarrow> int" where
  "YearFromDay d =
     (let z = d + 719162;
          n400 = z div 146097;
          r400 = z mod 146097;
          n100 = min 3 (r400 div 36524);
          r100 = r400 - n100 * 36524;
          n4 = r100 div 1461;
          r4 = r100 mod 1461;
          n1 = min 3 (r4 div 365)
      in 1 + 400 * n400 + 100 * n100 + 4 * n4 + n1)"

definition YearFromTime :: "int \<Rightarrow> int" where
  "YearFromTime t = YearFromDay (Day t)"

definition DayWithinYear :: "int \<Rightarrow> int" where
  "DayWithinYear t = Day t - DayFromYear (YearFromTime t)"

text \<open>The month (0 to 11) and the day of the month (1 to 31), by the standard's table.\<close>

definition MonthFromTime :: "int \<Rightarrow> int" where
  "MonthFromTime t =
     (let d = DayWithinYear t; l = (if InLeapYear (YearFromTime t) then 1 else 0)
      in if d < 31 then 0
         else if d < 59 + l then 1
         else if d < 90 + l then 2
         else if d < 120 + l then 3
         else if d < 151 + l then 4
         else if d < 181 + l then 5
         else if d < 212 + l then 6
         else if d < 243 + l then 7
         else if d < 273 + l then 8
         else if d < 304 + l then 9
         else if d < 334 + l then 10
         else 11)"

definition DateFromTime :: "int \<Rightarrow> int" where
  "DateFromTime t =
     (let d = DayWithinYear t; l = (if InLeapYear (YearFromTime t) then 1 else 0);
          m = MonthFromTime t
      in if m = 0 then d + 1
         else if m = 1 then d - 30
         else if m = 2 then d - 58 - l
         else if m = 3 then d - 89 - l
         else if m = 4 then d - 119 - l
         else if m = 5 then d - 150 - l
         else if m = 6 then d - 180 - l
         else if m = 7 then d - 211 - l
         else if m = 8 then d - 242 - l
         else if m = 9 then d - 272 - l
         else if m = 10 then d - 303 - l
         else d - 333 - l)"

text \<open>Decimal digits, padded with zeros on the left to a fixed width.\<close>

definition digit_char :: "nat \<Rightarrow> char" where
  "digit_char n = ''0123456789'' ! (n mod 10)"

fun pad :: "nat \<Rightarrow> nat \<Rightarrow> string" where
  "pad 0 n = []"
| "pad (Suc w) n = pad w (n div 10) @ [digit_char n]"

definition year_string :: "int \<Rightarrow> string" where
  "year_string y =
     (if 0 \<le> y \<and> y \<le> 9999 then pad 4 (nat y)
      else if y < 0 then CHR ''-'' # pad 6 (nat (- y))
      else CHR ''+'' # pad 6 (nat y))"

definition toISOString :: "int \<Rightarrow> string" where
  "toISOString t =
     year_string (YearFromTime t) @ ''-'' @ pad 2 (nat (MonthFromTime t + 1)) @ ''-'' @
     pad 2 (nat (DateFromTime t)) @ ''T'' @ pad 2 (nat (HourFromTime t)) @ '':'' @
     pad 2 (nat (MinFromTime t)) @ '':'' @ pad 2 (nat (SecFromTime t)) @ ''.'' @
     pad 3 (nat (msFromTime t)) @ ''Z''"

subsection \<open>The handler\<close>

text \<open>
  The result of an invocation: \<open>None\<close> when the \<^verbatim>\<open>await\<close> never returns,
  otherwise the completion of the call (\<open>Inl\<close> a value thrown to the caller,
  \<open>Inr\<close> the response returned) and the state left behind. The
  \<open>Rejected\<close> branch is the \<^verbatim>\<open>catch\<close> block.
\<close>

definition GET :: "'a env \<Rightarrow> world \<Rightarrow> ((js_error + response) \<times> world) option" where
  "GET e w =
     (case db_queryRaw e ''SELECT 1'' w of
        (Pending, w1) \<Rightarrow> None
      | (Fulfilled v, w1) \<Rightarrow>
          Some (Inr (NextResponse_json
                  (JObject
                    [(''status'', JString ''healthy''),
                     (''timestamp'', JString (toISOString (clock e))),
                     (''services'', JObject
                        [(''database'', JString ''connected''),
                         (''api'', JString ''operational'')])])
                  None), w1)
      | (Rejected error, w1) \<Rightarrow>
          (let w2 = console_error [LogString ''Health check failed:'', LogError error] w1
           in Some (Inr (NextResponse_json
                  (JObject
                    [(''status'', JString ''unhealthy''),
                     (''timestamp'', JString (toISOString (clock e))),
                     (''error'', JString ''Database connection failed''),
                     (''services'', JObject
                        [(''database'', JString ''disconnected''),
                         (''api'', JString ''operational'')])])
                  (Some 503)), w2)))"

text \<open>
  The framework calls the exported handler with the inbound request; the
  handler declares no parameter, so the argument is dropped.
\<close>

record http_request =
  req_method :: string
  req_url :: string
  req_headers :: "(string \<times> string) list"
  req_body :: string

definition route_GET ::
  "http_request \<Rightarrow> 'a env \<Rightarrow> world \<Rightarrow> ((js_error + response) \<times> world) option" where
  "route_GET request e w = GET e w"

text \<open>Successive invocations, each with its own environment, threading the state.\<close>

fun invocations ::
  "'a env list \<Rightarrow> world \<Rightarrow> ((js_error + response) list \<times> world) option" where
  "invocations [] w = Some ([], w)"
| "invocations (e # es) w =
     (case GET e w of
        None \<Rightarrow> None
      | Some (r, w1) \<Rightarrow>
          (case invocations es w1 of
             None \<Rightarrow> None
           | Some (rs, w2) \<Rightarrow> Some (r # rs, w2)))"

subsection \<open>Vocabulary of the properties\<close>

text \<open>A database client that answers every query with the same promise.\<close>

definition db_stub :: "'a promise \<Rightarrow> string \<Rightarrow> 'a promise" where
  "db_stub p q = p"

text \<open>A probe succeeded when its promise was fulfilled.\<close>

definition probe_succeeded :: "'a promise \<Rightarrow> bool" where
  "probe_succeeded p =
     (case p of Fulfilled v \<Rightarrow> True | Rejected error \<Rightarrow> False | Pending \<Rightarrow> False)"

text \<open>
  The states a service is reported in: \<^verbatim>\<open>connected\<close> and \<^verbatim>\<open>operational\<close>
  report a success, anything else (\<^verbatim>\<open>disconnected\<close>) a failure.
\<close>

definition service_up :: "json \<Rightarrow> bool" where
  "service_up j = (j = JString ''connected'' \<or> j = JString ''operational'')"

definition all_services_up :: "json \<Rightarrow> bool" where
  "all_services_up b =
     (case field ''services'' b of
        None \<Rightarrow> False
      | Some s \<Rightarrow> list_all service_up (map snd (members s)))"



text \<open>A response without the \<^verbatim>\<open>timestamp\<close> member of its body.\<close>

definition erase_timestamp :: "response \<Rightarrow> response" where
  "erase_timestamp r =
     r\<lparr>body := JObject (filter (\<lambda>kv. fst kv \<noteq> ''timestamp'') (members (body r)))\<rparr>"

definition healthy_shape :: response where
  "healthy_shape =
     \<lparr>status_code = 200,
      body = JObject
        [(''status'', JString ''healthy''),
         (''services'', JObject
            [(''database'', JString ''connected''), (''api'', JString ''operational'')])]\<rparr>"

section \<open>Properties of the handler\<close>

lemmas GET_defs = GET_def db_queryRaw_def NextResponse_json_def console_error_def field2_def



lemma GET_Fulfilled:
  assumes "queryRaw e ''SELECT 1'' = Fulfilled v"
  shows "GET e w =
    Some (Inr \<lparr>status_code = 200, body = JObject
            [(''status'', JString ''healthy''),
             (''timestamp'', JString (toISOString (clock e))),
             (''services'', JObject
                [(''database'', JString ''connected''), (''api'', JString ''operational'')])]\<rparr>,
          w\<lparr>sent := sent w @ [''SELECT 1'']\<rparr>)"
  using assms by (simp add: GET_defs)

text \<open>
  C1. Whenever the \<^verbatim>\<open>SELECT 1\<close> probe is fulfilled, the handler returns a
  response with status 200 whose body has status \<^verbatim>\<open>healthy\<close>,
  services.database \<^verbatim>\<open>connected\<close> and services.api \<^verbatim>\<open>operational\<close>.
\<close>

theorem GET_success:
  assumes "queryRaw e ''SELECT 1'' = Fulfilled v"
  shows "\<exists>r w'. GET e w = Some (Inr r, w') \<and> status_code r = 200 \<and>
           field ''status'' (body r) = Some (JString ''healthy'') \<and>
           field2 ''services'' ''database'' (body r) = Some (JString ''connected'') \<and>
           field2 ''services'' ''api'' (body r) = Some (JString ''operational'')"
  using assms by (simp add: GET_defs)

theorem GET_success_witness:
  "db_stub (Fulfilled ()) ''SELECT 1'' = Fulfilled () \<and>
   (\<exists>r w'. GET \<lparr>queryRaw = db_stub (Fulfilled ()), clock = 1793750400000\<rparr>
               \<lparr>console = [], sent = []\<rparr> = Some (Inr r, w') \<and>
      status_code r = 200 \<and>
      field ''status'' (body r) = Some (JString ''healthy'') \<and>
      field2 ''services'' ''database'' (body r) = Some (JString ''connected'') \<and>
      field2 ''services'' ''api'' (body r) = Some (JString ''operational''))"
  using GET_success [of "\<lparr>queryRaw = db_stub (Fulfilled ()), clock = 1793750400000\<rparr>" "()"
      "\<lparr>console = [], sent = []\<rparr>"]
  by (simp add: db_stub_def)

text \<open>
  C2. Whenever the probe is rejected with an error, the handler catches it,
  logs it on the console after the text \<^verbatim>\<open>Health check failed:\<close>, and returns a
  response with status 503 whose body has status \<^verbatim>\<open>unhealthy\<close>,
  services.database \<^verbatim>\<open>disconnected\<close>, services.api \<^verbatim>\<open>operational\<close> and
  the fixed error text \<^verbatim>\<open>Database connection failed\<close>.
\<close>

theorem GET_failure:
  assumes "queryRaw e ''SELECT 1'' = Rejected err"
  shows "\<exists>r w'. GET e w = Some (Inr r, w') \<and> status_code r = 503 \<and>
           console w' =
             console w @ [ConsoleError [LogString ''Health check failed:'', LogError err]] \<and>
           field ''status'' (body r) = Some (JString ''unhealthy'') \<and>
           field2 ''services'' ''database'' (body r) = Some (JString ''disconnected'') \<and>
           field2 ''services'' ''api'' (body r) = Some (JString ''operational'') \<and>
           field ''error'' (body r) = Some (JString ''Database connection failed'')"
  using assms by (simp add: GET_defs)

theorem GET_failure_witness:
  "db_stub (Rejected (JsError ''Error'' ''ECONNREFUSED'') :: unit promise) ''SELECT 1'' =
     Rejected (JsError ''Error'' ''ECONNREFUSED'') \<and>
   (\<exists>r w'. GET \<lparr>queryRaw = db_stub (Rejected (JsError ''Error'' ''ECONNREFUSED'') :: unit promise),
                 clock = 1793750400000\<rparr>
               \<lparr>console = [], sent = []\<rparr> = Some (Inr r, w') \<and>
      status_code r = 503 \<and>
      console w' =
        [ConsoleError [LogString ''Health check failed:'',
           LogError (JsError ''Error'' ''ECONNREFUSED'')]] \<and>
      field ''status'' (body r) = Some (JString ''unhealthy'') \<and>
      field2 ''services'' ''database'' (body r) = Some (JString ''disconnected'') \<and>
      field2 ''services'' ''api'' (body r) = Some (JString ''operational'') \<and>
      field ''error'' (body r) = Some (JString ''Database connection failed''))"
  using GET_failure [of "\<lparr>queryRaw = db_stub (Rejected (JsError ''Error'' ''ECONNREFUSED'') :: unit promise),
      clock = 1793750400000\<rparr>" "JsError ''Error'' ''ECONNREFUSED''"
      "\<lparr>console = [], sent = []\<rparr>"]
  by (simp add: db_stub_def)

text \<open>
  C3. Whenever the probe settles, the handler returns a response: healthy with
  200, every service recorded in the body reported up, when the probe
  succeeded; unhealthy with 503, a service reported down, when the probe
  failed. And every result the handler returns at all is a response, never a
  thrown value; its status is \<^verbatim>\<open>healthy\<close> exactly when the probe succeeded,
  and exactly when every service recorded in the body is reported up; a
  service reported down forces \<^verbatim>\<open>unhealthy\<close> with 503; and the response
  is either healthy with 200 or unhealthy with 503.
\<close>

theorem GET_two_outcomes:
  "(queryRaw e ''SELECT 1'' \<noteq> Pending \<longrightarrow>
      (\<exists>r w'. GET e w = Some (Inr r, w') \<and>
         (probe_succeeded (queryRaw e ''SELECT 1'') \<longrightarrow>
            field ''status'' (body r) = Some (JString ''healthy'') \<and> status_code r = 200 \<and>
            all_services_up (body r)) \<and>
         (\<not> probe_succeeded (queryRaw e ''SELECT 1'') \<longrightarrow>
            field ''status'' (body r) = Some (JString ''unhealthy'') \<and> status_code r = 503 \<and>
            \<not> all_services_up (body r)))) \<and>
   (\<forall>c w'. GET e w = Some (c, w') \<longrightarrow>
      (\<exists>r. c = Inr r \<and>
           (field ''status'' (body r) = Some (JString ''healthy'') \<longleftrightarrow>
              probe_succeeded (queryRaw e ''SELECT 1'')) \<and>
           (field ''status'' (body r) = Some (JString ''healthy'') \<longleftrightarrow>
              all_services_up (body r)) \<and>
           (\<not> all_services_up (body r) \<longrightarrow>
              field ''status'' (body r) = Some (JString ''unhealthy'') \<and> status_code r = 503) \<and>
           (field ''status'' (body r) = Some (JString ''healthy'') \<and> status_code r = 200 \<or>
            field ''status'' (body r) = Some (JString ''unhealthy'') \<and> status_code r = 503)))"
  by (auto simp add: GET_defs probe_succeeded_def all_services_up_def service_up_def
      split: promise.splits)

theorem GET_two_outcomes_witness:
  "db_stub (Rejected (JsError ''Error'' ''timeout'') :: unit promise) ''SELECT 1'' \<noteq> Pending \<and>
   \<not> probe_succeeded (db_stub (Rejected (JsError ''Error'' ''timeout'') :: unit promise)
        ''SELECT 1'') \<and>
   (\<exists>r w'. GET \<lparr>queryRaw = db_stub (Rejected (JsError ''Error'' ''timeout'') :: unit promise),
                 clock = 7\<rparr> \<lparr>console = [], sent = []\<rparr> = Some (Inr r, w') \<and>
      field ''status'' (body r) = Some (JString ''unhealthy'') \<and> status_code r = 503 \<and>
      \<not> all_services_up (body r))"
  using GET_two_outcomes
    [of "\<lparr>queryRaw = db_stub (Rejected (JsError ''Error'' ''timeout'') :: unit promise),
           clock = 7\<rparr>" "\<lparr>console = [], sent = []\<rparr>"]
  by (auto simp add: db_stub_def probe_succeeded_def)




text \<open>
  C5. The handler never completes by throwing; and whenever the probe settles,
  fulfilled or rejected with any error, the handler returns a response.
\<close>

theorem GET_never_throws:
  "(\<forall>x w'. GET e w \<noteq> Some (Inl x, w')) \<and>
   (queryRaw e ''SELECT 1'' \<noteq> Pending \<longrightarrow> (\<exists>r w'. GET e w = Some (Inr r, w')))"
  by (auto simp add: GET_defs split: promise.splits)

theorem GET_never_throws_witness:
  "db_stub (Rejected (JsError ''TypeError'' ''fetch failed'') :: unit promise) ''SELECT 1'' \<noteq> Pending \<and>
   (\<exists>r w'. GET \<lparr>queryRaw = db_stub (Rejected (JsError ''TypeError'' ''fetch failed'') :: unit promise),
                 clock = 3\<rparr> \<lparr>console = [], sent = []\<rparr> = Some (Inr r, w'))"
  using GET_never_throws
    [of "\<lparr>queryRaw = db_stub (Rejected (JsError ''TypeError'' ''fetch failed'') :: unit promise),
           clock = 3\<rparr>" "\<lparr>console = [], sent = []\<rparr>"]
  by (simp add: db_stub_def)

text \<open>
  C6. Every response the handler returns has services.api \<^verbatim>\<open>operational\<close>,
  and the handler returns one whenever the probe settles, fulfilled or rejected.
\<close>

theorem GET_api_operational:
  "(\<forall>c w'. GET e w = Some (c, w') \<longrightarrow>
      (\<exists>r. c = Inr r \<and>
         field2 ''services'' ''api'' (body r) = Some (JString ''operational''))) \<and>
   (queryRaw e ''SELECT 1'' \<noteq> Pending \<longrightarrow> (\<exists>c w'. GET e w = Some (c, w')))"
  by (auto simp add: GET_defs split: promise.splits)

theorem GET_api_operational_witness:
  "db_stub (Rejected (JsError ''Error'' ''timeout'') :: unit promise) ''SELECT 1'' \<noteq> Pending \<and>
   (\<exists>r w'. GET \<lparr>queryRaw = db_stub (Rejected (JsError ''Error'' ''timeout'') :: unit promise),
                 clock = 3\<rparr> \<lparr>console = [], sent = []\<rparr> = Some (Inr r, w') \<and>
      field2 ''services'' ''api'' (body r) = Some (JString ''operational''))"
  using GET_api_operational
    [of "\<lparr>queryRaw = db_stub (Rejected (JsError ''Error'' ''timeout'') :: unit promise),
           clock = 3\<rparr>" "\<lparr>console = [], sent = []\<rparr>"]
  by (auto simp add: db_stub_def)

text \<open>
  C7. When the probe is fulfilled the body of the response has no
  \<^verbatim>\<open>error\<close> member; when it is rejected the body has one.
\<close>

theorem GET_error_field:
  "(\<forall>v. queryRaw e ''SELECT 1'' = Fulfilled v \<longrightarrow>
      (\<exists>r w'. GET e w = Some (Inr r, w') \<and> field ''error'' (body r) = None \<and>
         ''error'' \<notin> fst ` set (members (body r)))) \<and>
   (\<forall>err. queryRaw e ''SELECT 1'' = Rejected err \<longrightarrow>
      (\<exists>r w' j. GET e w = Some (Inr r, w') \<and> field ''error'' (body r) = Some j))"
  by (auto simp add: GET_defs)

theorem GET_error_field_witness:
  "db_stub (Fulfilled ()) ''SELECT 1'' = Fulfilled () \<and>
   (\<exists>r w'. GET \<lparr>queryRaw = db_stub (Fulfilled ()), clock = 3\<rparr>
               \<lparr>console = [], sent = []\<rparr> = Some (Inr r, w') \<and>
      field ''error'' (body r) = None)"
  using GET_error_field
    [of "\<lparr>queryRaw = db_stub (Fulfilled ()), clock = 3\<rparr>" "\<lparr>console = [], sent = []\<rparr>"]
  by (auto simp add: db_stub_def)

text \<open>
  C8. A run of any number of invocations whose probes are all fulfilled returns
  as many responses, all equal to the same healthy response with status 200
  once the timestamp is left out. Each response is the one the invocation
  returns from any state, so nothing is retained from the earlier
  invocations; the console is left as it was, and the only statements sent to
  the database are \<^verbatim>\<open>SELECT 1\<close>, one for each invocation.
\<close>

lemma invocations_Fulfilled:
  assumes "\<forall>e \<in> set es. \<exists>v. queryRaw e ''SELECT 1'' = Fulfilled v"
  shows "\<exists>rs w'. invocations es w = Some (rs, w') \<and>
           console w' = console w \<and>
           sent w' = sent w @ replicate (length es) ''SELECT 1'' \<and>
           list_all2 (\<lambda>e c. (\<exists>r. c = Inr r \<and> erase_timestamp r = healthy_shape) \<and>
                              (\<forall>w0. \<exists>w0'. GET e w0 = Some (c, w0'))) es rs"
  using assms
proof (induction es arbitrary: w)
  case Nil
  then show ?case by simp
next
  case (Cons e es)
  from Cons.prems obtain v where v: "queryRaw e ''SELECT 1'' = Fulfilled v"
    by auto
  let ?w1 = "w\<lparr>sent := sent w @ [''SELECT 1'']\<rparr>"
  from Cons.prems have "\<forall>e \<in> set es. \<exists>v. queryRaw e ''SELECT 1'' = Fulfilled v"
    by simp
  from Cons.IH [OF this, of ?w1] obtain rs w' where
    rs: "invocations es ?w1 = Some (rs, w')" "console w' = console ?w1"
      "sent w' = sent ?w1 @ replicate (length es) ''SELECT 1''"
      "list_all2 (\<lambda>e c. (\<exists>r. c = Inr r \<and> erase_timestamp r = healthy_shape) \<and>
                              (\<forall>w0. \<exists>w0'. GET e w0 = Some (c, w0'))) es rs"
    by blast
  show ?case
    using rs by (simp add: GET_Fulfilled [OF v] erase_timestamp_def healthy_shape_def
        replicate_app_Cons_same)
qed

theorem invocations_success_identical:
  assumes "\<forall>e \<in> set es. \<exists>v. queryRaw e ''SELECT 1'' = Fulfilled v"
  shows "\<exists>rs w'. invocations es w = Some (rs, w') \<and> length rs = length es \<and>
           console w' = console w \<and>
           sent w' = sent w @ replicate (length es) ''SELECT 1'' \<and>
           (\<forall>i < length es.
              (\<exists>r. rs ! i = Inr r \<and> erase_timestamp r = healthy_shape) \<and>
              (\<forall>w0. \<exists>w0'. GET (es ! i) w0 = Some (rs ! i, w0')))"
proof -
  from invocations_Fulfilled [OF assms, of w] obtain rs w' where
    rs: "invocations es w = Some (rs, w')" "console w' = console w"
      "sent w' = sent w @ replicate (length es) ''SELECT 1''"
      "list_all2 (\<lambda>e c. (\<exists>r. c = Inr r \<and> erase_timestamp r = healthy_shape) \<and>
                              (\<forall>w0. \<exists>w0'. GET e w0 = Some (c, w0'))) es rs"
    by blast
  from rs(4) have "length rs = length es"
    by (simp add: list_all2_lengthD)
  moreover from rs(4) have "\<forall>i < length es.
              (\<exists>r. rs ! i = Inr r \<and> erase_timestamp r = healthy_shape) \<and>
              (\<forall>w0. \<exists>w0'. GET (es ! i) w0 = Some (rs ! i, w0'))"
    by (simp add: list_all2_conv_all_nth)
  ultimately show ?thesis using rs(1-3) by blast
qed

theorem invocations_success_identical_witness:
  "queryRaw \<lparr>queryRaw = db_stub (Fulfilled ()), clock = 1793750400000\<rparr> ''SELECT 1'' =
     Fulfilled () \<and>
   queryRaw \<lparr>queryRaw = db_stub (Fulfilled ()), clock = 1793750460000\<rparr> ''SELECT 1'' =
     Fulfilled () \<and>
   (\<exists>rs w'. invocations [\<lparr>queryRaw = db_stub (Fulfilled ()), clock = 1793750400000\<rparr>,
                         \<lparr>queryRaw = db_stub (Fulfilled ()), clock = 1793750460000\<rparr>]
                \<lparr>console = [], sent = []\<rparr> = Some (rs, w') \<and>
      length rs = 2 \<and> console w' = [] \<and> sent w' = [''SELECT 1'', ''SELECT 1''] \<and>
      (\<exists>r. rs ! 0 = Inr r \<and> erase_timestamp r = healthy_shape) \<and>
      (\<exists>r. rs ! 1 = Inr r \<and> erase_timestamp r = healthy_shape))"
proof -
  let ?es = "[\<lparr>queryRaw = db_stub (Fulfilled ()), clock = 1793750400000\<rparr>,
              \<lparr>queryRaw = db_stub (Fulfilled ()), clock = 1793750460000\<rparr>]"
  have h: "\<forall>e \<in> set ?es. \<exists>v. queryRaw e ''SELECT 1'' = Fulfilled v"
    by (simp add: db_stub_def)
  from invocations_success_identical [OF h, of "\<lparr>console = [], sent = []\<rparr>"]
  obtain rs w' where
    rs: "invocations ?es \<lparr>console = [], sent = []\<rparr> = Some (rs, w')" "length rs = length ?es"
      "console w' = console \<lparr>console = [], sent = []\<rparr>"
      "sent w' = sent \<lparr>console = [], sent = []\<rparr> @ replicate (length ?es) ''SELECT 1''"
      "\<forall>i < length ?es.
              (\<exists>r. rs ! i = Inr r \<and> erase_timestamp r = healthy_shape) \<and>
              (\<forall>w0. \<exists>w0'. GET (?es ! i) w0 = Some (rs ! i, w0'))"
    by blast
  from rs(5) have "(\<exists>r. rs ! 0 = Inr r \<and> erase_timestamp r = healthy_shape)"
    and "(\<exists>r. rs ! 1 = Inr r \<and> erase_timestamp r = healthy_shape)"
    by simp_all
  with rs(1-4) show ?thesis
    by (simp add: numeral_2_eq_2 db_stub_def)
qed

text \<open>
  C10. The response does not depend on the inbound request: for any two
  requests, with the same answer of the probe and the same clock value, the
  handler returns the same result from the same state.
\<close>

theorem route_GET_ignores_request:
  assumes "queryRaw e1 ''SELECT 1'' = queryRaw e2 ''SELECT 1''" and "clock e1 = clock e2"
  shows "route_GET request1 e1 w = route_GET request2 e2 w"
  unfolding route_GET_def GET_def db_queryRaw_def assms by (rule refl)

theorem route_GET_ignores_request_witness:
  "queryRaw \<lparr>queryRaw = db_stub (Fulfilled ()), clock = 9\<rparr> ''SELECT 1'' =
     queryRaw \<lparr>queryRaw = db_stub (Fulfilled ()), clock = 9\<rparr> ''SELECT 1'' \<and>
   route_GET \<lparr>req_method = ''GET'', req_url = ''/api/health'', req_headers = [],
               req_body = []\<rparr>
     \<lparr>queryRaw = db_stub (Fulfilled ()), clock = 9\<rparr> \<lparr>console = [], sent = []\<rparr> =
   route_GET \<lparr>req_method = ''GET'', req_url = ''/api/health?verbose=1'',
               req_headers = [(''x-forwarded-for'', ''10.0.0.1'')], req_body = ''{}''\<rparr>
     \<lparr>queryRaw = db_stub (Fulfilled ()), clock = 9\<rparr> \<lparr>console = [], sent = []\<rparr>"
  using route_GET_ignores_request
    [of "\<lparr>queryRaw = db_stub (Fulfilled ()), clock = 9\<rparr>"
      "\<lparr>queryRaw = db_stub (Fulfilled ()), clock = 9\<rparr>"
      "\<lparr>req_method = ''GET'', req_url = ''/api/health'', req_headers = [],
               req_body = []\<rparr>"
      "\<lparr>console = [], sent = []\<rparr>"
      "\<lparr>req_method = ''GET'', req_url = ''/api/health?verbose=1'',
               req_headers = [(''x-forwarded-for'', ''10.0.0.1'')], req_body = ''{}''\<rparr>"]
  by simp

end
